theory Spec2Isabelle
  imports Main
begin

section \<open>Values exchanged with the PostgREST server\<close>

text \<open>
  What \<^verbatim>\<open>r.json()\<close> yields and what the builders carry as \<^verbatim>\<open>json\<close>: Python values
  decoded from JSON. \<open>JNull\<close> is Python's \<^verbatim>\<open>None\<close>; a \<^verbatim>\<open>dict\<close> is an association list
  (the first binding of a key is the one \<^verbatim>\<open>get\<close> finds). Numbers are integers here.
\<close>

datatype json =
    JNull
  | JBool bool
  | JNum int
  | JStr string
  | JArr "json list"
  | JObj "(string \<times> json) list"

type_synonym dict = "(string \<times> json) list"

text \<open>\<^verbatim>\<open>d.get(k)\<close>: the value bound to \<open>k\<close>, \<^verbatim>\<open>None\<close> when the key is absent.\<close>

definition dict_get :: "dict \<Rightarrow> string \<Rightarrow> json" where
  "dict_get d k = (case map_of d k of None \<Rightarrow> JNull | Some v \<Rightarrow> v)"

text \<open>Python's truth value of a decoded JSON value (\<^verbatim>\<open>bool(x)\<close>).\<close>

fun py_truthy :: "json \<Rightarrow> bool" where
  "py_truthy JNull = False"
| "py_truthy (JBool b) = b"
| "py_truthy (JNum n) = (n \<noteq> 0)"
| "py_truthy (JStr s) = (s \<noteq> [])"
| "py_truthy (JArr xs) = (xs \<noteq> [])"
| "py_truthy (JObj kvs) = (kvs \<noteq> [])"

text \<open>\<^verbatim>\<open>needle in s\<close> on two strings: \<open>needle\<close> occurs in \<open>s\<close> as a contiguous block.\<close>

fun str_contains :: "string \<Rightarrow> string \<Rightarrow> bool" where
  "str_contains needle [] = (needle = [])"
| "str_contains needle (c # cs) =
     (take (length needle) (c # cs) = needle \<or> str_contains needle cs)"


section \<open>Exceptions\<close>

text \<open>
  Modelled from the spec: the class \<^verbatim>\<open>APIError\<close> (\<^verbatim>\<open>postgrest/exceptions.py\<close>) is imported
  by the source file but is not among the sources. Section 3 of the specification gives its
  data: the four fields message, code, hint and details, sourced verbatim from the error
  JSON it is constructed from; section 4.1 has the error built from whatever of the body
  was parseable, so a field the body does not give is \<^verbatim>\<open>None\<close>.
\<close>

record api_error =
  message :: json
  code :: json
  hint :: json
  details :: json

definition APIError_init :: "json \<Rightarrow> api_error" where
  "APIError_init j =
     (case j of
        JObj d \<Rightarrow> \<lparr>message = dict_get d ''message'', code = dict_get d ''code'',
                   hint = dict_get d ''hint'', details = dict_get d ''details''\<rparr>
      | _ \<Rightarrow> \<lparr>message = JNull, code = JNull, hint = JNull, details = JNull\<rparr>)"

text \<open>
  The exceptions that cross this module. \<open>APIError e cause\<close> carries the cause given by
  \<^verbatim>\<open>raise ... from\<close> (\<open>None\<close> for a plain \<^verbatim>\<open>raise\<close>); \<open>ValidationError\<close> is pydantic's,
  the only class \<^verbatim>\<open>execute\<close> catches; \<open>JSONDecodeError\<close> is what \<^verbatim>\<open>r.json()\<close> raises on a
  body that is not JSON; \<open>TypeError\<close> is Python's for \<^verbatim>\<open>in\<close> on a value that is no
  container; \<open>OtherError\<close> stands for everything else (a transport failure, say).
\<close>

datatype exn =
    APIError api_error "exn option"
  | ValidationError string
  | JSONDecodeError
  | TypeError
  | OtherError string

text \<open>
  \<^verbatim>\<open>needle in x\<close> for a decoded JSON value \<open>x\<close>: substring test on a string, membership
  in a list, key membership in a dict, \<^verbatim>\<open>TypeError\<close> on anything else.
\<close>

fun py_in :: "string \<Rightarrow> json \<Rightarrow> exn + bool" where
  "py_in needle (JStr s) = Inr (str_contains needle s)"
| "py_in needle (JArr xs) = Inr (JStr needle \<in> set xs)"
| "py_in needle (JObj kvs) = Inr (needle \<in> fst ` set kvs)"
| "py_in needle JNull = Inl TypeError"
| "py_in needle (JBool b) = Inl TypeError"
| "py_in needle (JNum n) = Inl TypeError"


section \<open>Responses\<close>

text \<open>
  The transport's response, as the module reads it: \<^verbatim>\<open>r.status_code\<close> and \<^verbatim>\<open>r.json()\<close>.
  \<open>json_body = None\<close> is a body that is not JSON, on which \<^verbatim>\<open>r.json()\<close> raises.
  \<open>reported_count\<close> is the count the server reports beside the body when a count preference
  was requested (section 6 of the specification); only the response parsers read it.
\<close>

record response =
  status_code :: int
  json_body :: "json option"
  reported_count :: "int option"

definition r_json :: "response \<Rightarrow> exn + json" where
  "r_json r = (case json_body r of None \<Rightarrow> Inl JSONDecodeError | Some j \<Rightarrow> Inr j)"

text \<open>
  Modelled from the spec: the classes \<^verbatim>\<open>APIResponse\<close> and \<^verbatim>\<open>SingleAPIResponse\<close>
  (\<^verbatim>\<open>postgrest/base_request_builder.py\<close>) are not among the sources. Section 3 of the
  specification gives their data: a sequence of rows and an optional count; a single row
  or null and an optional count.
\<close>

record api_response =
  data :: "json list"
  count :: "int option"

record single_api_response =
  single_data :: json
  single_count :: "int option"


section \<open>The store, the transport and the builders\<close>

text \<open>
  \<^verbatim>\<open>httpx.Headers\<close> objects are mutable and shared by reference, so they live in a store
  and a builder holds the address of its header map. Query parameters and the JSON body are
  never written by this module and are held by value.
\<close>

type_synonym headers = "string \<rightharpoonup> string"
type_synonym query_params = "(string \<times> string) list"
type_synonym addr = nat

text \<open>One call of \<^verbatim>\<open>session.request(method, path, json=, params=, headers=)\<close>.\<close>

record call =
  call_session :: nat
  call_method :: string
  call_path :: string
  call_json :: json
  call_params :: query_params
  call_headers :: headers

record world =
  heap :: "addr \<Rightarrow> headers"
  next_addr :: addr
  sent :: "call list"

datatype builder_class =
    AsyncQueryRequestBuilder
  | AsyncSingleRequestBuilder
  | AsyncMaybeSingleRequestBuilder
  | AsyncFilterRequestBuilder
  | AsyncSelectRequestBuilder

text \<open>The six attributes every builder's \<^verbatim>\<open>__init__\<close> stores, and the class of the object.\<close>

record builder =
  cls :: builder_class
  session :: nat
  path :: string
  http_method :: string
  headers :: addr
  params :: query_params
  json :: json

text \<open>
  The collaborators the executors call and whose code is not in the source file: the
  transport (\<^verbatim>\<open>session.request\<close>, whose answer may depend on the calls made so far), the
  two response parsers, \<^verbatim>\<open>SingleAPIResponse.from_dict\<close>, and the truth value Python gives
  a \<^verbatim>\<open>SingleAPIResponse\<close> object in \<^verbatim>\<open>if not r\<close>.
\<close>

record collab =
  request :: "call list \<Rightarrow> call \<Rightarrow> exn + response"
  from_http_request_response :: "response \<Rightarrow> exn + api_response"
  single_from_http_request_response :: "response \<Rightarrow> exn + single_api_response"
  single_from_dict :: "dict \<Rightarrow> exn + single_api_response"
  truthy :: "single_api_response \<Rightarrow> bool"


section \<open>The executors\<close>

text \<open>The call \<^verbatim>\<open>execute\<close> makes: the builder's stored attributes, the header map read
  through its address.\<close>

definition call_of :: "builder \<Rightarrow> world \<Rightarrow> call" where
  "call_of b w =
     \<lparr>call_session = session b, call_method = http_method b, call_path = path b,
      call_json = json b, call_params = params b, call_headers = heap w (headers b)\<rparr>"

text \<open>\<^verbatim>\<open>r = await self.session.request(...)\<close>: the call is recorded, the transport answers
  with a response or raises.\<close>

definition send :: "collab \<Rightarrow> builder \<Rightarrow> world \<Rightarrow> (exn + response) \<times> world" where
  "send c b w = (request c (sent w) (call_of b w), w\<lparr>sent := sent w @ [call_of b w]\<rparr>)"

text \<open>\<^verbatim>\<open>raise APIError(r.json())\<close>, with the cause of \<^verbatim>\<open>from e\<close> when there is one: the
  argument is evaluated first, and its \<^verbatim>\<open>JSONDecodeError\<close> is what is raised when the body
  is not JSON.\<close>

definition raise_APIError :: "response \<Rightarrow> exn option \<Rightarrow> exn + 'a" where
  "raise_APIError r cause =
     (case r_json r of Inl x \<Rightarrow> Inl x | Inr j \<Rightarrow> Inl (APIError (APIError_init j) cause))"

text \<open>The \<^verbatim>\<open>try\<close> block shared by both \<^verbatim>\<open>execute\<close> methods, for a parser \<open>parse\<close>: the
  status test, then the \<^verbatim>\<open>except ValidationError as e\<close> handler.\<close>

definition classify :: "(response \<Rightarrow> exn + 'a) \<Rightarrow> response \<Rightarrow> exn + 'a" where
  "classify parse r =
     (let body = (if 200 \<le> status_code r \<and> status_code r \<le> 299 then parse r
                  else raise_APIError r None)
      in case body of
           Inl (ValidationError v) \<Rightarrow> raise_APIError r (Some (ValidationError v))
         | _ \<Rightarrow> body)"

text \<open>\<^verbatim>\<open>AsyncQueryRequestBuilder.execute\<close>. An exception of the transport leaves the method
  before the \<^verbatim>\<open>try\<close>.\<close>

definition execute :: "collab \<Rightarrow> builder \<Rightarrow> world \<Rightarrow> (exn + api_response) \<times> world" where
  "execute c b w =
     (case send c b w of
        (Inl x, w') \<Rightarrow> (Inl x, w')
      | (Inr r, w') \<Rightarrow> (classify (from_http_request_response c) r, w'))"

text \<open>\<^verbatim>\<open>AsyncSingleRequestBuilder.execute\<close>.\<close>

definition single_execute ::
  "collab \<Rightarrow> builder \<Rightarrow> world \<Rightarrow> (exn + single_api_response) \<times> world" where
  "single_execute c b w =
     (case send c b w of
        (Inl x, w') \<Rightarrow> (Inl x, w')
      | (Inr r, w') \<Rightarrow> (classify (single_from_http_request_response c) r, w'))"

text \<open>The test \<^verbatim>\<open>e.details and "Results contain 0 rows" in e.details\<close>: \<^verbatim>\<open>and\<close> does not
  evaluate its right operand when the left one is false.\<close>

definition zero_rows :: "api_error \<Rightarrow> exn + bool" where
  "zero_rows e =
     (if py_truthy (details e) then py_in ''Results contain 0 rows'' (details e)
      else Inr False)"

definition empty_result :: dict where
  "empty_result = [(''data'', JNull), (''error'', JNull), (''count'', JNum 0)]"

definition missing_response :: dict where
  "missing_response =
     [(''message'', JStr ''Missing response''),
      (''code'', JStr ''204''),
      (''hint'', JStr ''Please check traceback of the code''),
      (''details'', JStr (''Postgrest couldn't retrieve response, please check traceback of the code. '' @
         ''Please create an issue in `supabase-community/postgrest-py` if needed.''))]"

text \<open>
  \<^verbatim>\<open>AsyncMaybeSingleRequestBuilder.execute\<close>. An \<^verbatim>\<open>APIError\<close> of the inherited
  \<^verbatim>\<open>execute\<close> is caught; when the test on its details fails the handler ends without
  raising, \<open>r\<close> is still \<^verbatim>\<open>None\<close>, and \<^verbatim>\<open>if not r\<close> raises the local error. Any other
  exception is not caught.
\<close>

definition maybe_single_execute ::
  "collab \<Rightarrow> builder \<Rightarrow> world \<Rightarrow> (exn + single_api_response) \<times> world" where
  "maybe_single_execute c b w =
     (case single_execute c b w of
        (Inl (APIError e cause), w') \<Rightarrow>
          (case zero_rows e of
             Inl x \<Rightarrow> (Inl x, w')
           | Inr True \<Rightarrow> (single_from_dict c empty_result, w')
           | Inr False \<Rightarrow> (Inl (APIError (APIError_init (JObj missing_response)) None), w'))
      | (Inl x, w') \<Rightarrow> (Inl x, w')
      | (Inr r, w') \<Rightarrow>
          (if \<not> truthy c r
           then (Inl (APIError (APIError_init (JObj missing_response)) None), w')
           else (Inr r, w')))"


section \<open>From a Select builder to a single-row executor\<close>

text \<open>\<^verbatim>\<open>self.headers["Accept"] = "application/vnd.pgrst.object+json"\<close>: the header map at the
  builder's address is written in place. A key of the map stands for the header name as
  \<^verbatim>\<open>httpx.Headers\<close> compares it.\<close>

definition set_accept :: "builder \<Rightarrow> world \<Rightarrow> world" where
  "set_accept b w =
     w\<lparr>heap := (heap w)(headers b :=
          (heap w (headers b))(''Accept'' \<mapsto> ''application/vnd.pgrst.object+json''))\<rparr>"

text \<open>\<^verbatim>\<open>AsyncSelectRequestBuilder.single\<close>: the new executor is given the builder's own
  attributes, the header map by its address.\<close>

definition single :: "builder \<Rightarrow> world \<Rightarrow> builder \<times> world" where
  "single b w =
     (\<lparr>cls = AsyncSingleRequestBuilder, session = session b, path = path b,
       http_method = http_method b, headers = headers b, params = params b, json = json b\<rparr>,
      set_accept b w)"

text \<open>\<^verbatim>\<open>AsyncSelectRequestBuilder.maybe_single\<close>.\<close>

definition maybe_single :: "builder \<Rightarrow> world \<Rightarrow> builder \<times> world" where
  "maybe_single b w =
     (\<lparr>cls = AsyncMaybeSingleRequestBuilder, session = session b, path = path b,
       http_method = http_method b, headers = headers b, params = params b, json = json b\<rparr>,
      set_accept b w)"


section \<open>The request builder\<close>

text \<open>The mixin each class statement of the source file lists before the executor class;
  \<open>None\<close> for the classes that have none.\<close>

datatype mixin = BaseFilterRequestBuilder | BaseSelectRequestBuilder

fun mixin_of :: "builder_class \<Rightarrow> mixin option" where
  "mixin_of AsyncFilterRequestBuilder = Some BaseFilterRequestBuilder"
| "mixin_of AsyncSelectRequestBuilder = Some BaseSelectRequestBuilder"
| "mixin_of AsyncQueryRequestBuilder = None"
| "mixin_of AsyncSingleRequestBuilder = None"
| "mixin_of AsyncMaybeSingleRequestBuilder = None"

datatype CountMethod = exact | planned | estimated

datatype ReturnMethod = minimal | representation

text \<open>What a \<^verbatim>\<open>pre_*\<close> function returns: \<^verbatim>\<open>(method, params, headers, json)\<close>.\<close>

type_synonym descriptor = "string \<times> query_params \<times> headers \<times> json"

text \<open>The five \<^verbatim>\<open>pre_*\<close> functions are imported from \<^verbatim>\<open>postgrest/base_request_builder.py\<close>,
  which is not among the sources: they are parameters of the model.\<close>

record pre =
  pre_select :: "string list \<Rightarrow> CountMethod option \<Rightarrow> descriptor"
  pre_insert :: "json \<Rightarrow> CountMethod option \<Rightarrow> ReturnMethod \<Rightarrow> bool \<Rightarrow> descriptor"
  pre_upsert :: "json \<Rightarrow> CountMethod option \<Rightarrow> ReturnMethod \<Rightarrow> bool \<Rightarrow> descriptor"
  pre_update :: "json \<Rightarrow> CountMethod option \<Rightarrow> ReturnMethod \<Rightarrow> descriptor"
  pre_delete :: "CountMethod option \<Rightarrow> ReturnMethod \<Rightarrow> descriptor"

record request_builder =
  rb_session :: nat
  rb_path :: string

text \<open>A keyword argument the caller may leave out: \<open>None\<close> is the call without it, and the
  default of the signature is used.\<close>

definition keyword :: "'a \<Rightarrow> 'a option \<Rightarrow> 'a" where
  "keyword dflt arg = (case arg of None \<Rightarrow> dflt | Some v \<Rightarrow> v)"

text \<open>\<^verbatim>\<open>Cls(self.session, self.path, method, headers, params, json)\<close>: the header map the
  \<^verbatim>\<open>pre_*\<close> function made is a new object, at an address not yet in use.\<close>

definition construct ::
  "builder_class \<Rightarrow> request_builder \<Rightarrow> descriptor \<Rightarrow> world \<Rightarrow> builder \<times> world" where
  "construct k rb d w =
     (case d of (method, ps, hs, js) \<Rightarrow>
        (\<lparr>cls = k, session = rb_session rb, path = rb_path rb, http_method = method,
          headers = next_addr w, params = ps, json = js\<rparr>,
         w\<lparr>heap := (heap w)(next_addr w := hs), next_addr := Suc (next_addr w)\<rparr>))"

definition select ::
  "pre \<Rightarrow> request_builder \<Rightarrow> string list \<Rightarrow> CountMethod option \<Rightarrow> world \<Rightarrow> builder \<times> world"
  where
  "select p rb columns cnt w =
     construct AsyncSelectRequestBuilder rb (pre_select p columns cnt) w"

definition insert_rows ::
  "pre \<Rightarrow> request_builder \<Rightarrow> json \<Rightarrow> CountMethod option \<Rightarrow> ReturnMethod option \<Rightarrow>
   bool option \<Rightarrow> world \<Rightarrow> builder \<times> world" where
  "insert_rows p rb js cnt returning ups w =
     construct AsyncQueryRequestBuilder rb
       (pre_insert p js cnt (keyword representation returning) (keyword False ups)) w"

definition upsert ::
  "pre \<Rightarrow> request_builder \<Rightarrow> json \<Rightarrow> CountMethod option \<Rightarrow> ReturnMethod option \<Rightarrow>
   bool option \<Rightarrow> world \<Rightarrow> builder \<times> world" where
  "upsert p rb js cnt returning ignore_duplicates w =
     construct AsyncQueryRequestBuilder rb
       (pre_upsert p js cnt (keyword representation returning)
          (keyword False ignore_duplicates)) w"

definition update ::
  "pre \<Rightarrow> request_builder \<Rightarrow> json \<Rightarrow> CountMethod option \<Rightarrow> ReturnMethod option \<Rightarrow>
   world \<Rightarrow> builder \<times> world" where
  "update p rb js cnt returning w =
     construct AsyncFilterRequestBuilder rb
       (pre_update p js cnt (keyword representation returning)) w"

definition delete ::
  "pre \<Rightarrow> request_builder \<Rightarrow> CountMethod option \<Rightarrow> ReturnMethod option \<Rightarrow>
   world \<Rightarrow> builder \<times> world" where
  "delete p rb cnt returning w =
     construct AsyncFilterRequestBuilder rb
       (pre_delete p cnt (keyword representation returning)) w"



section \<open>The response classes of the specification\<close>

fun is_row :: "json \<Rightarrow> bool" where
  "is_row (JObj d) = True"
| "is_row _ = False"

text \<open>
  Modelled from the spec: \<^verbatim>\<open>APIResponse.from_http_request_response\<close>
  (\<^verbatim>\<open>postgrest/base_request_builder.py\<close>) is not among the sources. Section 4.1: the body
  must be a JSON array, each element a row, or a JSON object wrapping the rows with a
  count (read here with the field names of section 3, \<^verbatim>\<open>data\<close> and \<^verbatim>\<open>count\<close>); a body that
  cannot be parsed into this shape is a parse failure, pydantic's \<^verbatim>\<open>ValidationError\<close>,
  the exception \<^verbatim>\<open>execute\<close> catches.
\<close>

definition APIResponse_from_http_request_response :: "response \<Rightarrow> exn + api_response" where
  "APIResponse_from_http_request_response r =
     (case json_body r of
        Some (JArr rows) \<Rightarrow>
          if list_all is_row rows then Inr \<lparr>data = rows, count = reported_count r\<rparr>
          else Inl (ValidationError ''data'')
      | Some (JObj d) \<Rightarrow>
          (case dict_get d ''data'' of
             JArr rows \<Rightarrow>
               (case dict_get d ''count'' of
                  JNum n \<Rightarrow>
                    if list_all is_row rows then Inr \<lparr>data = rows, count = Some n\<rparr>
                    else Inl (ValidationError ''data'')
                | _ \<Rightarrow> Inl (ValidationError ''count''))
           | _ \<Rightarrow> Inl (ValidationError ''data''))
      | _ \<Rightarrow> Inl (ValidationError ''data''))"

text \<open>
  Modelled from the spec: \<^verbatim>\<open>SingleAPIResponse.from_http_request_response\<close> is not among the
  sources. Section 4.2: the body is parsed as exactly one row object, not an array; section 8
  has an array body treated as a parse error.
\<close>

definition SingleAPIResponse_from_http_request_response ::
  "response \<Rightarrow> exn + single_api_response" where
  "SingleAPIResponse_from_http_request_response r =
     (case json_body r of
        Some (JObj d) \<Rightarrow> Inr \<lparr>single_data = JObj d, single_count = reported_count r\<rparr>
      | _ \<Rightarrow> Inl (ValidationError ''data''))"

text \<open>
  Modelled from the spec: \<^verbatim>\<open>SingleAPIResponse.from_dict\<close> is not among the sources.
  Section 4.3: from the dict with data null, error null and count 0 it gives the Single API
  Response with data null and count 0; the response of section 3 has no error field.
\<close>

definition SingleAPIResponse_from_dict :: "dict \<Rightarrow> exn + single_api_response" where
  "SingleAPIResponse_from_dict d =
     Inr \<lparr>single_data = dict_get d ''data'',
          single_count = (case dict_get d ''count'' of JNum n \<Rightarrow> Some n | _ \<Rightarrow> None)\<rparr>"

text \<open>The collaborators as the specification has them, over a transport \<open>tr\<close>. A response
  object is true in \<^verbatim>\<open>if not r\<close>, as a Python object is unless its class says otherwise.\<close>

definition spec_collab :: "(call list \<Rightarrow> call \<Rightarrow> exn + response) \<Rightarrow> collab" where
  "spec_collab tr =
     \<lparr>request = tr,
      from_http_request_response = APIResponse_from_http_request_response,
      single_from_http_request_response = SingleAPIResponse_from_http_request_response,
      single_from_dict = SingleAPIResponse_from_dict,
      truthy = (\<lambda>r. True)\<rparr>"


section \<open>Sample requests and answers\<close>

text \<open>A transport that answers every call with the same status and body.\<close>

definition answer :: "int \<Rightarrow> json option \<Rightarrow> call list \<Rightarrow> call \<Rightarrow> exn + response" where
  "answer st body hist cl = Inr \<lparr>status_code = st, json_body = body, reported_count = None\<rparr>"

text \<open>The builder of \<^verbatim>\<open>select("*").eq("id", 7)\<close> on \<^verbatim>\<open>/countries\<close>, its header map at
  address 0.\<close>

definition countries :: builder where
  "countries =
     \<lparr>cls = AsyncSelectRequestBuilder, session = 0, path = ''/countries'',
      http_method = ''GET'', headers = 0,
      params = [(''select'', ''*''), (''id'', ''eq.7'')], json = JObj []\<rparr>"

definition world0 :: world where
  "world0 =
     \<lparr>heap = (\<lambda>a. if a = 0 then [''Accept-Profile'' \<mapsto> ''public''] else Map.empty),
      next_addr = 1, sent = []\<rparr>"

text \<open>Error bodies of the server: no row and two rows under the single-object media type,
  and a refused read.\<close>

definition no_rows_body :: dict where
  "no_rows_body =
     [(''message'', JStr ''JSON object requested, multiple (or no) rows returned''),
      (''code'', JStr ''PGRST116''),
      (''details'', JStr ''Results contain 0 rows''),
      (''hint'', JNull)]"

definition two_rows_body :: dict where
  "two_rows_body =
     [(''message'', JStr ''JSON object requested, multiple (or no) rows returned''),
      (''code'', JStr ''PGRST116''),
      (''details'', JStr ''Results contain 2 rows''),
      (''hint'', JNull)]"

definition denied_body :: dict where
  "denied_body =
     [(''message'', JStr ''permission denied for table countries''),
      (''code'', JStr ''42501''),
      (''details'', JNull),
      (''hint'', JNull)]"

text \<open>The executor \<^verbatim>\<open>maybe_single()\<close> makes of that builder, and the store it leaves.\<close>

definition one_country :: builder where
  "one_country = fst (maybe_single countries world0)"

definition world1 :: world where
  "world1 = snd (maybe_single countries world0)"

definition sample_pre :: pre where
  "sample_pre =
     \<lparr>pre_select = (\<lambda>columns cnt.
        (''GET'', [(''select'', concat (map (\<lambda>c. c @ '','') columns))], Map.empty, JObj [])),
      pre_insert = (\<lambda>js cnt returning ups.
        (''POST'', [],
         [''Prefer'' \<mapsto> (if returning = minimal then ''return=minimal'' else ''return=representation'')
            @ (if ups then '',resolution=merge-duplicates'' else [])], js)),
      pre_upsert = (\<lambda>js cnt returning ign.
        (''POST'', [],
         [''Prefer'' \<mapsto> (if returning = minimal then ''return=minimal'' else ''return=representation'')
            @ (if ign then '',resolution=ignore-duplicates'' else '',resolution=merge-duplicates'')], js)),
      pre_update = (\<lambda>js cnt returning.
        (''PATCH'', [],
         [''Prefer'' \<mapsto> (if returning = minimal then ''return=minimal'' else ''return=representation'')], js)),
      pre_delete = (\<lambda>cnt returning.
        (''DELETE'', [],
         [''Prefer'' \<mapsto> (if returning = minimal then ''return=minimal'' else ''return=representation'')],
         JObj []))\<rparr>"


text \<open>The executor of \<^verbatim>\<open>insert({"name": "Chile"}, returning=minimal)\<close> on \<^verbatim>\<open>/countries\<close>,
  and the store it leaves.\<close>

definition new_country :: builder where
  "new_country =
     fst (insert_rows sample_pre \<lparr>rb_session = 0, rb_path = ''/countries''\<rparr>
            (JObj [(''name'', JStr ''Chile'')]) None (Some minimal) None world0)"

definition world2 :: world where
  "world2 =
     snd (insert_rows sample_pre \<lparr>rb_session = 0, rb_path = ''/countries''\<rparr>
            (JObj [(''name'', JStr ''Chile'')]) None (Some minimal) None world0)"


section \<open>One network call per execution\<close>

lemma snd_send: "snd (send c b w) = w\<lparr>sent := sent w @ [call_of b w]\<rparr>"
  by (simp add: send_def)

lemma snd_execute: "snd (execute c b w) = w\<lparr>sent := sent w @ [call_of b w]\<rparr>"
  by (simp add: execute_def send_def split: sum.split)

lemma snd_single_execute:
  "snd (single_execute c b w) = w\<lparr>sent := sent w @ [call_of b w]\<rparr>"
  by (simp add: single_execute_def send_def split: sum.split)

lemma snd_maybe_single_execute:
  "snd (maybe_single_execute c b w) = w\<lparr>sent := sent w @ [call_of b w]\<rparr>"
proof -
  obtain res w' where sw: "single_execute c b w = (res, w')"
    by (cases "single_execute c b w")
  with snd_single_execute [of c b w] have w': "w' = w\<lparr>sent := sent w @ [call_of b w]\<rparr>"
    by simp
  show ?thesis
    by (simp add: maybe_single_execute_def sw w'
        split: sum.split exn.split bool.split)
qed


section \<open>Facts about the helpers\<close>

lemma str_contains_iff: "str_contains n s \<longleftrightarrow> (\<exists>p q. s = p @ n @ q)"
proof (induction s)
  case Nil
  then show ?case by simp
next
  case (Cons c cs)
  show ?case
  proof
    assume "str_contains n (c # cs)"
    then consider "take (length n) (c # cs) = n" | "str_contains n cs" by auto
    then show "\<exists>p q. c # cs = p @ n @ q"
    proof cases
      case 1
      have "c # cs = [] @ take (length n) (c # cs) @ drop (length n) (c # cs)" by simp
      with 1 show ?thesis by metis
    next
      case 2
      with Cons.IH obtain p q where "cs = p @ n @ q" by blast
      then have "c # cs = (c # p) @ n @ q" by simp
      then show ?thesis by blast
    qed
  next
    assume "\<exists>p q. c # cs = p @ n @ q"
    then obtain p q where pq: "c # cs = p @ n @ q" by blast
    show "str_contains n (c # cs)"
    proof (cases p)
      case Nil
      with pq have "take (length n) (c # cs) = n" by simp
      then show ?thesis by simp
    next
      case (Cons a p')
      with pq have "cs = p' @ n @ q" by simp
      with Cons.IH have "str_contains n cs" by blast
      then show ?thesis by simp
    qed
  qed
qed

lemma fst_execute:
  "fst (execute c b w) =
     (case request c (sent w) (call_of b w) of
        Inl x \<Rightarrow> Inl x
      | Inr r \<Rightarrow> classify (from_http_request_response c) r)"
  by (simp add: execute_def send_def split: sum.split)

lemma fst_single_execute:
  "fst (single_execute c b w) =
     (case request c (sent w) (call_of b w) of
        Inl x \<Rightarrow> Inl x
      | Inr r \<Rightarrow> classify (single_from_http_request_response c) r)"
  by (simp add: single_execute_def send_def split: sum.split)

lemma classify_ok:
  "200 \<le> status_code r \<Longrightarrow> status_code r \<le> 299 \<Longrightarrow> parse r = Inr v \<Longrightarrow>
   classify parse r = Inr v"
  by (simp add: classify_def)

lemma classify_invalid:
  "200 \<le> status_code r \<Longrightarrow> status_code r \<le> 299 \<Longrightarrow> parse r = Inl (ValidationError v) \<Longrightarrow>
   classify parse r = raise_APIError r (Some (ValidationError v))"
  by (simp add: classify_def)

lemma raise_APIError_Inl: "\<exists>x. raise_APIError r cause = Inl x"
  by (simp add: raise_APIError_def split: sum.split)

lemma raise_APIError_not_invalid: "raise_APIError r cause \<noteq> Inl (ValidationError v)"
  by (simp add: raise_APIError_def r_json_def split: option.split)

lemma classify_failure:
  assumes out: "\<not> (200 \<le> status_code r \<and> status_code r \<le> 299)"
  shows "classify parse r = raise_APIError r None"
proof -
  have "classify parse r =
      (case (raise_APIError r None :: exn + 'a) of
         Inl (ValidationError v) \<Rightarrow> raise_APIError r (Some (ValidationError v))
       | _ \<Rightarrow> raise_APIError r None)"
    unfolding classify_def Let_def by (simp only: out if_False)
  then show ?thesis
    by (simp add: raise_APIError_def r_json_def split: option.split)
qed

lemma fst_maybe_single_execute:
  "fst (maybe_single_execute c b w) =
     (case fst (single_execute c b w) of
        Inl (APIError e cause) \<Rightarrow>
          (case zero_rows e of
             Inl x \<Rightarrow> Inl x
           | Inr True \<Rightarrow> single_from_dict c empty_result
           | Inr False \<Rightarrow> Inl (APIError (APIError_init (JObj missing_response)) None))
      | Inl x \<Rightarrow> Inl x
      | Inr r \<Rightarrow>
          (if truthy c r then Inr r
           else Inl (APIError (APIError_init (JObj missing_response)) None)))"
  by (cases "single_execute c b w")
     (simp add: maybe_single_execute_def split: sum.split exn.split bool.split)

lemma str_contains_nonempty: "str_contains n s \<Longrightarrow> n \<noteq> [] \<Longrightarrow> s \<noteq> []"
  by (cases s) auto

lemma missing_response_fields:
  "APIError_init (JObj missing_response) =
     \<lparr>message = JStr ''Missing response'', code = JStr ''204'',
      hint = JStr ''Please check traceback of the code'',
      details = JStr (''Postgrest couldn't retrieve response, please check traceback of the code. '' @
         ''Please create an issue in `supabase-community/postgrest-py` if needed.'')\<rparr>"
  by (simp add: APIError_init_def missing_response_def dict_get_def)

lemma single_execute_answer:
  "fst (single_execute (spec_collab (answer st body)) b w) =
     classify SingleAPIResponse_from_http_request_response
       \<lparr>status_code = st, json_body = body, reported_count = None\<rparr>"
  by (simp add: fst_single_execute spec_collab_def answer_def)

lemma single_execute_answer_falsy:
  "fst (single_execute (spec_collab (answer st body)\<lparr>truthy := f\<rparr>) b w) =
     classify SingleAPIResponse_from_http_request_response
       \<lparr>status_code = st, json_body = body, reported_count = None\<rparr>"
  by (simp add: fst_single_execute spec_collab_def answer_def)


section \<open>Claims about the executors\<close>

text \<open>
  C9. One call of \<^verbatim>\<open>execute()\<close> on a Query, Single-Row or Maybe-Single executor makes
  exactly one call of the transport's request operation, with the stored method, path,
  JSON body, query parameters and headers of the executor, and changes nothing else: the
  store of header maps is as before and the only change of the world is the one call added
  to the calls sent. Two calls of \<^verbatim>\<open>execute()\<close> send the same request twice.
\<close>

theorem execute_sends_once:
  "snd (execute c b w) =
     w\<lparr>sent := sent w @
        [\<lparr>call_session = session b, call_method = http_method b, call_path = path b,
          call_json = json b, call_params = params b, call_headers = heap w (headers b)\<rparr>]\<rparr>
   \<and> snd (single_execute c b w) = snd (execute c b w)
   \<and> snd (maybe_single_execute c b w) = snd (execute c b w)
   \<and> sent (snd (execute c b (snd (execute c b w)))) =
       sent w @ [call_of b w, call_of b w]
   \<and> sent (snd (single_execute c b (snd (single_execute c b w)))) =
       sent w @ [call_of b w, call_of b w]
   \<and> sent (snd (maybe_single_execute c b (snd (maybe_single_execute c b w)))) =
       sent w @ [call_of b w, call_of b w]"
  by (simp add: snd_execute snd_single_execute snd_maybe_single_execute call_of_def)

text \<open>
  C10. When the inherited Single-Row \<^verbatim>\<open>execute\<close> returns a response, the Maybe-Single
  \<^verbatim>\<open>execute\<close> returns that same response if the response object is true in \<^verbatim>\<open>if not r\<close>,
  and raises the local error with code "204" and message "Missing response" if it is false.
\<close>

theorem maybe_single_returns_response:
  assumes "fst (single_execute c b w) = Inr r"
  shows "fst (maybe_single_execute c b w) =
           (if truthy c r then Inr r
            else Inl (APIError (APIError_init (JObj missing_response)) None))
         \<and> code (APIError_init (JObj missing_response)) = JStr ''204''
         \<and> message (APIError_init (JObj missing_response)) = JStr ''Missing response''"
  using assms by (simp add: fst_maybe_single_execute missing_response_fields)

theorem maybe_single_returns_response_witness:
  "fst (single_execute (spec_collab (answer 200 (Some (JObj [(''id'', JNum 7)])))) one_country world1) =
     Inr \<lparr>single_data = JObj [(''id'', JNum 7)], single_count = None\<rparr>
   \<and> fst (maybe_single_execute (spec_collab (answer 200 (Some (JObj [(''id'', JNum 7)])))) one_country world1) =
     Inr \<lparr>single_data = JObj [(''id'', JNum 7)], single_count = None\<rparr>
   \<and> fst (maybe_single_execute
        (spec_collab (answer 200 (Some (JObj [(''id'', JNum 7)])))\<lparr>truthy := (\<lambda>r. False)\<rparr>)
        one_country world1) =
     Inl (APIError (APIError_init (JObj missing_response)) None)"
proof -
  let ?C = "spec_collab (answer 200 (Some (JObj [(''id'', JNum 7)])))"
  let ?R = "\<lparr>single_data = JObj [(''id'', JNum 7)], single_count = None\<rparr>"
  have h: "fst (single_execute ?C one_country world1) = Inr ?R"
    by (simp add: single_execute_answer classify_def
        SingleAPIResponse_from_http_request_response_def)
  have h': "fst (single_execute (?C\<lparr>truthy := (\<lambda>r. False)\<rparr>) one_country world1) = Inr ?R"
    by (simp add: single_execute_answer_falsy classify_def
        SingleAPIResponse_from_http_request_response_def)
  have t: "truthy ?C ?R" by (simp add: spec_collab_def)
  show ?thesis
    using h maybe_single_returns_response [OF h] maybe_single_returns_response [OF h'] t
    by simp
qed

lemma zero_rows_absent:
  "details e = JNull \<or> (\<exists>s. details e = JStr s \<and> \<not> str_contains ''Results contain 0 rows'' s) \<Longrightarrow>
   zero_rows e = Inr False"
  by (auto simp: zero_rows_def)

lemma zero_rows_present:
  "details e = JStr s \<Longrightarrow> str_contains ''Results contain 0 rows'' s \<Longrightarrow>
   zero_rows e = Inr True"
  using str_contains_nonempty [of "''Results contain 0 rows''" s]
  by (simp add: zero_rows_def)

lemma classify_error_body:
  "\<not> (200 \<le> st \<and> st \<le> 299) \<Longrightarrow>
   classify parse \<lparr>status_code = st, json_body = Some j, reported_count = n\<rparr> =
     Inl (APIError (APIError_init j) None)"
  by (simp add: classify_failure raise_APIError_def r_json_def)

text \<open>
  C1, as the code has it. An \<^verbatim>\<open>APIError\<close> of the inherited Single-Row \<^verbatim>\<open>execute\<close> whose
  details are null, or a string that does not contain "Results contain 0 rows", is caught
  and dropped by the Maybe-Single \<^verbatim>\<open>execute\<close>, which raises the local error with code
  "204" and message "Missing response" in its place.
\<close>

theorem maybe_single_replaces_other_errors:
  assumes "fst (single_execute c b w) = Inl (APIError e cause)"
    and "details e = JNull \<or>
         (\<exists>s. details e = JStr s \<and> \<not> str_contains ''Results contain 0 rows'' s)"
  shows "fst (maybe_single_execute c b w) =
           Inl (APIError (APIError_init (JObj missing_response)) None)
         \<and> code (APIError_init (JObj missing_response)) = JStr ''204''
         \<and> message (APIError_init (JObj missing_response)) = JStr ''Missing response''"
  using assms(1) zero_rows_absent [OF assms(2)]
  by (simp add: fst_maybe_single_execute missing_response_fields)

theorem maybe_single_replaces_other_errors_witness:
  "fst (single_execute (spec_collab (answer 406 (Some (JObj two_rows_body)))) one_country world1) =
     Inl (APIError (APIError_init (JObj two_rows_body)) None)
   \<and> details (APIError_init (JObj two_rows_body)) = JStr ''Results contain 2 rows''
   \<and> \<not> str_contains ''Results contain 0 rows'' ''Results contain 2 rows''
   \<and> fst (maybe_single_execute (spec_collab (answer 406 (Some (JObj two_rows_body)))) one_country world1) =
     Inl (APIError (APIError_init (JObj missing_response)) None)"
proof -
  let ?C = "spec_collab (answer 406 (Some (JObj two_rows_body)))"
  have h: "fst (single_execute ?C one_country world1) =
      Inl (APIError (APIError_init (JObj two_rows_body)) None)"
    by (simp add: single_execute_answer classify_error_body)
  have d: "details (APIError_init (JObj two_rows_body)) = JStr ''Results contain 2 rows''"
    by (simp add: APIError_init_def two_rows_body_def dict_get_def)
  have n: "\<not> str_contains ''Results contain 0 rows'' ''Results contain 2 rows''"
    by simp
  from d n have a: "details (APIError_init (JObj two_rows_body)) = JNull \<or>
      (\<exists>s. details (APIError_init (JObj two_rows_body)) = JStr s \<and>
           \<not> str_contains ''Results contain 0 rows'' s)"
    by blast
  from maybe_single_replaces_other_errors [OF h a] h d n show ?thesis
    by blast
qed

text \<open>
  C1 as stated fails: the server answers 406 with the error "Results contain 2 rows", the
  Single-Row \<^verbatim>\<open>execute\<close> raises that error, and the Maybe-Single \<^verbatim>\<open>execute\<close> raises a
  different one.
\<close>

theorem maybe_single_reraise_counterexample:
  "fst (single_execute (spec_collab (answer 406 (Some (JObj two_rows_body)))) one_country world1) =
     Inl (APIError
       \<lparr>message = JStr ''JSON object requested, multiple (or no) rows returned'',
        code = JStr ''PGRST116'', hint = JNull, details = JStr ''Results contain 2 rows''\<rparr> None)
   \<and> \<not> str_contains ''Results contain 0 rows'' ''Results contain 2 rows''
   \<and> fst (maybe_single_execute (spec_collab (answer 406 (Some (JObj two_rows_body)))) one_country world1) =
     Inl (APIError
       \<lparr>message = JStr ''Missing response'', code = JStr ''204'',
        hint = JStr ''Please check traceback of the code'',
        details = JStr (''Postgrest couldn't retrieve response, please check traceback of the code. '' @
         ''Please create an issue in `supabase-community/postgrest-py` if needed.'')\<rparr> None)
   \<and> fst (maybe_single_execute (spec_collab (answer 406 (Some (JObj two_rows_body)))) one_country world1) \<noteq>
     fst (single_execute (spec_collab (answer 406 (Some (JObj two_rows_body)))) one_country world1)"
proof -
  let ?C = "spec_collab (answer 406 (Some (JObj two_rows_body)))"
  have e: "APIError_init (JObj two_rows_body) =
      \<lparr>message = JStr ''JSON object requested, multiple (or no) rows returned'',
        code = JStr ''PGRST116'', hint = JNull, details = JStr ''Results contain 2 rows''\<rparr>"
    by (simp add: APIError_init_def two_rows_body_def dict_get_def)
  have h: "fst (single_execute ?C one_country world1) =
      Inl (APIError (APIError_init (JObj two_rows_body)) None)"
    by (simp add: single_execute_answer classify_error_body)
  have z: "zero_rows (APIError_init (JObj two_rows_body)) = Inr False"
    by (simp add: e zero_rows_def)
  have m: "fst (maybe_single_execute ?C one_country world1) =
      Inl (APIError (APIError_init (JObj missing_response)) None)"
    by (simp add: fst_maybe_single_execute h z)
  show ?thesis
    unfolding m h unfolding e missing_response_fields by simp
qed

text \<open>
  C2, as the code has it. The Maybe-Single \<^verbatim>\<open>execute\<close> raises the local error with code
  "204" when the inherited \<^verbatim>\<open>execute\<close> raised an \<^verbatim>\<open>APIError\<close> that fails the test on its
  details, and when it returned a response that is false in \<^verbatim>\<open>if not r\<close>. It does not
  raise it when the inherited call returned a true response (that response is returned) or
  raised an exception that is no \<^verbatim>\<open>APIError\<close> (that exception passes through). So
  whenever the local error is the outcome, the inherited call returned a false response or
  raised an \<^verbatim>\<open>APIError\<close>.
\<close>

theorem missing_response_cases:
  "(\<forall>e cause. fst (single_execute c b w) = Inl (APIError e cause) \<and> zero_rows e = Inr False \<longrightarrow>
      fst (maybe_single_execute c b w) =
        Inl (APIError (APIError_init (JObj missing_response)) None))
   \<and> (\<forall>r. fst (single_execute c b w) = Inr r \<and> \<not> truthy c r \<longrightarrow>
      fst (maybe_single_execute c b w) =
        Inl (APIError (APIError_init (JObj missing_response)) None))
   \<and> (\<forall>r. fst (single_execute c b w) = Inr r \<and> truthy c r \<longrightarrow>
      fst (maybe_single_execute c b w) = Inr r)
   \<and> (\<forall>x. fst (single_execute c b w) = Inl x \<and> (\<forall>e cause. x \<noteq> APIError e cause) \<longrightarrow>
      fst (maybe_single_execute c b w) = Inl x)
   \<and> (fst (maybe_single_execute c b w) =
        Inl (APIError (APIError_init (JObj missing_response)) None) \<longrightarrow>
      (\<exists>r. fst (single_execute c b w) = Inr r \<and> \<not> truthy c r) \<or>
      (\<exists>e cause. fst (single_execute c b w) = Inl (APIError e cause)))
   \<and> code (APIError_init (JObj missing_response)) = JStr ''204''"
proof -
  have other: "fst (maybe_single_execute c b w) = Inl x"
    if "fst (single_execute c b w) = Inl x" and "\<forall>e cause. x \<noteq> APIError e cause" for x
    using that by (cases x) (simp_all add: fst_maybe_single_execute)
  have only: "(\<exists>r. fst (single_execute c b w) = Inr r \<and> \<not> truthy c r) \<or>
      (\<exists>e cause. fst (single_execute c b w) = Inl (APIError e cause))"
    if m: "fst (maybe_single_execute c b w) =
        Inl (APIError (APIError_init (JObj missing_response)) None)"
  proof (cases "fst (single_execute c b w)")
    case (Inr r)
    with m show ?thesis
      by (simp add: fst_maybe_single_execute split: if_splits)
  next
    case (Inl x)
    show ?thesis
    proof (cases "\<exists>e cause. x = APIError e cause")
      case True
      with Inl show ?thesis by blast
    next
      case False
      with other [OF Inl] m show ?thesis by auto
    qed
  qed
  show ?thesis
    using other only
    by (simp add: fst_maybe_single_execute missing_response_fields)
qed

theorem missing_response_cases_witness:
  "fst (single_execute (spec_collab (answer 403 (Some (JObj denied_body)))) one_country world1) =
     Inl (APIError (APIError_init (JObj denied_body)) None)
   \<and> zero_rows (APIError_init (JObj denied_body)) = Inr False
   \<and> fst (maybe_single_execute (spec_collab (answer 403 (Some (JObj denied_body)))) one_country world1) =
     Inl (APIError (APIError_init (JObj missing_response)) None)"
proof -
  let ?C = "spec_collab (answer 403 (Some (JObj denied_body)))"
  have h: "fst (single_execute ?C one_country world1) =
      Inl (APIError (APIError_init (JObj denied_body)) None)"
    by (simp add: single_execute_answer classify_error_body)
  have z: "zero_rows (APIError_init (JObj denied_body)) = Inr False"
    by (simp add: zero_rows_def APIError_init_def denied_body_def dict_get_def)
  from missing_response_cases [of ?C one_country world1] h z show ?thesis
    by blast
qed

text \<open>
  C2 as stated fails: the server refuses the read with status 403 and an error whose
  details are null; the inherited \<^verbatim>\<open>execute\<close> raises that \<^verbatim>\<open>APIError\<close>, and the outcome of
  the Maybe-Single \<^verbatim>\<open>execute\<close> is the local error with code "204".
\<close>

theorem missing_response_after_error_counterexample:
  "fst (single_execute (spec_collab (answer 403 (Some (JObj denied_body)))) one_country world1) =
     Inl (APIError
       \<lparr>message = JStr ''permission denied for table countries'', code = JStr ''42501'',
        hint = JNull, details = JNull\<rparr> None)
   \<and> fst (maybe_single_execute (spec_collab (answer 403 (Some (JObj denied_body)))) one_country world1) =
     Inl (APIError (APIError_init (JObj missing_response)) None)
   \<and> message (APIError_init (JObj missing_response)) = JStr ''Missing response''
   \<and> code (APIError_init (JObj missing_response)) = JStr ''204''"
proof -
  let ?C = "spec_collab (answer 403 (Some (JObj denied_body)))"
  have e: "APIError_init (JObj denied_body) =
      \<lparr>message = JStr ''permission denied for table countries'', code = JStr ''42501'',
        hint = JNull, details = JNull\<rparr>"
    by (simp add: APIError_init_def denied_body_def dict_get_def)
  have h: "fst (single_execute ?C one_country world1) =
      Inl (APIError (APIError_init (JObj denied_body)) None)"
    by (simp add: single_execute_answer classify_error_body)
  have z: "zero_rows (APIError_init (JObj denied_body)) = Inr False"
    by (simp add: e zero_rows_def)
  have m: "fst (maybe_single_execute ?C one_country world1) =
      Inl (APIError (APIError_init (JObj missing_response)) None)"
    by (simp add: fst_maybe_single_execute h z)
  show ?thesis
    using h m by (simp add: e missing_response_fields)
qed

text \<open>
  C3. An \<^verbatim>\<open>APIError\<close> of the inherited Single-Row \<^verbatim>\<open>execute\<close> whose details are a string
  containing "Results contain 0 rows" is not raised again: the Maybe-Single \<^verbatim>\<open>execute\<close>
  returns what \<^verbatim>\<open>SingleAPIResponse.from_dict\<close> makes of the dict with data null, error
  null and count 0, which with the response class of the specification is the Single API
  Response with data null and count 0.
\<close>

theorem maybe_single_zero_rows:
  assumes "fst (single_execute c b w) = Inl (APIError e cause)"
    and "details e = JStr s"
    and "str_contains ''Results contain 0 rows'' s"
  shows "fst (maybe_single_execute c b w) =
           single_from_dict c [(''data'', JNull), (''error'', JNull), (''count'', JNum 0)]
         \<and> (single_from_dict c = SingleAPIResponse_from_dict \<longrightarrow>
            fst (maybe_single_execute c b w) =
              Inr \<lparr>single_data = JNull, single_count = Some 0\<rparr>)"
  using assms(1) zero_rows_present [OF assms(2,3)]
  by (simp add: fst_maybe_single_execute empty_result_def SingleAPIResponse_from_dict_def
      dict_get_def)

theorem maybe_single_zero_rows_witness:
  "fst (single_execute (spec_collab (answer 406 (Some (JObj no_rows_body)))) one_country world1) =
     Inl (APIError (APIError_init (JObj no_rows_body)) None)
   \<and> details (APIError_init (JObj no_rows_body)) = JStr ''Results contain 0 rows''
   \<and> str_contains ''Results contain 0 rows'' ''Results contain 0 rows''
   \<and> fst (maybe_single_execute (spec_collab (answer 406 (Some (JObj no_rows_body)))) one_country world1) =
     Inr \<lparr>single_data = JNull, single_count = Some 0\<rparr>"
proof -
  let ?C = "spec_collab (answer 406 (Some (JObj no_rows_body)))"
  have h: "fst (single_execute ?C one_country world1) =
      Inl (APIError (APIError_init (JObj no_rows_body)) None)"
    by (simp add: single_execute_answer classify_error_body)
  have d: "details (APIError_init (JObj no_rows_body)) = JStr ''Results contain 0 rows''"
    by (simp add: APIError_init_def no_rows_body_def dict_get_def)
  have s: "str_contains ''Results contain 0 rows'' ''Results contain 0 rows''"
    by simp
  have f: "single_from_dict ?C = SingleAPIResponse_from_dict"
    by (simp add: spec_collab_def)
  from maybe_single_zero_rows [OF h d s] f h d s show ?thesis
    by blast
qed

lemma APIResponse_rows:
  "json_body r = Some (JArr rows) \<Longrightarrow> list_all is_row rows \<Longrightarrow>
   APIResponse_from_http_request_response r = Inr \<lparr>data = rows, count = reported_count r\<rparr>"
  by (simp add: APIResponse_from_http_request_response_def)

lemma execute_answer:
  "fst (execute (spec_collab (answer st body)) b w) =
     classify APIResponse_from_http_request_response
       \<lparr>status_code = st, json_body = body, reported_count = None\<rparr>"
  by (simp add: fst_execute spec_collab_def answer_def)

lemma request_answer:
  "request (spec_collab (answer st body)) hist cl =
     Inr \<lparr>status_code = st, json_body = body, reported_count = None\<rparr>"
  by (simp add: spec_collab_def answer_def)


section \<open>Claims about the classification of responses\<close>

text \<open>
  C4. Let the transport answer the request of a plain Query executor with a response.
  If its status code is in the range 200 to 299, \<^verbatim>\<open>execute()\<close> returns the very API
  Response the parser makes of it; with the parser of the specification and a body that is
  a JSON array of rows, that response has the parsed array as its data: the same rows in
  the same order. If the status code is outside the range, \<^verbatim>\<open>execute()\<close> raises.
\<close>

theorem execute_success_and_failure:
  assumes "request c (sent w) (call_of b w) = Inr r"
  shows "(200 \<le> status_code r \<and> status_code r \<le> 299 \<longrightarrow>
            (\<forall>resp. from_http_request_response c r = Inr resp \<longrightarrow>
               fst (execute c b w) = Inr resp))
       \<and> (200 \<le> status_code r \<and> status_code r \<le> 299 \<and>
          json_body r = Some (JArr rows) \<and> list_all is_row rows \<and>
          from_http_request_response c = APIResponse_from_http_request_response \<longrightarrow>
            (\<exists>resp. fst (execute c b w) = Inr resp \<and> data resp = rows))
       \<and> (\<not> (200 \<le> status_code r \<and> status_code r \<le> 299) \<longrightarrow>
            (\<exists>x. fst (execute c b w) = Inl x))"
proof -
  have ex: "fst (execute c b w) = classify (from_http_request_response c) r"
    using assms by (simp add: fst_execute)
  have ok: "fst (execute c b w) = Inr resp"
    if "200 \<le> status_code r" "status_code r \<le> 299" "from_http_request_response c r = Inr resp"
    for resp
    using that by (simp add: ex classify_ok)
  have rows: "\<exists>resp. fst (execute c b w) = Inr resp \<and> data resp = rows"
    if "200 \<le> status_code r" "status_code r \<le> 299" "json_body r = Some (JArr rows)"
      "list_all is_row rows"
      "from_http_request_response c = APIResponse_from_http_request_response"
  proof -
    have "from_http_request_response c r = Inr \<lparr>data = rows, count = reported_count r\<rparr>"
      using that by (simp add: APIResponse_rows)
    with that(1,2) have "fst (execute c b w) = Inr \<lparr>data = rows, count = reported_count r\<rparr>"
      by (rule ok)
    then show ?thesis by simp
  qed
  have out: "\<exists>x. fst (execute c b w) = Inl x"
    if "\<not> (200 \<le> status_code r \<and> status_code r \<le> 299)"
    using that raise_APIError_Inl [of r None] by (simp add: ex classify_failure)
  show ?thesis
    using ok rows out by blast
qed

theorem execute_success_and_failure_witness:
  "fst (execute (spec_collab (answer 200 (Some (JArr [JObj [(''id'', JNum 7)], JObj [(''id'', JNum 3)]]))))
         countries world0) =
     Inr \<lparr>data = [JObj [(''id'', JNum 7)], JObj [(''id'', JNum 3)]], count = None\<rparr>
   \<and> (\<exists>x. fst (execute (spec_collab (answer 300 (Some (JArr [JObj [(''id'', JNum 7)]]))))
         countries world0) = Inl x)"
proof -
  let ?rows = "[JObj [(''id'', JNum 7)], JObj [(''id'', JNum 3)]]"
  let ?r = "\<lparr>status_code = 200, json_body = Some (JArr ?rows), reported_count = None\<rparr>"
  let ?r' = "\<lparr>status_code = 300, json_body = Some (JArr [JObj [(''id'', JNum 7)]]),
             reported_count = None\<rparr>"
  have p: "from_http_request_response (spec_collab (answer 200 (Some (JArr ?rows)))) ?r =
      Inr \<lparr>data = ?rows, count = None\<rparr>"
    by (simp add: spec_collab_def APIResponse_from_http_request_response_def)
  have a: "fst (execute (spec_collab (answer 200 (Some (JArr ?rows)))) countries world0) =
      Inr \<lparr>data = ?rows, count = None\<rparr>"
    using execute_success_and_failure [of "spec_collab (answer 200 (Some (JArr ?rows)))"
        world0 countries ?r, OF request_answer] p
    by simp
  have b: "\<exists>x. fst (execute (spec_collab (answer 300 (Some (JArr [JObj [(''id'', JNum 7)]]))))
         countries world0) = Inl x"
    using execute_success_and_failure [of
        "spec_collab (answer 300 (Some (JArr [JObj [(''id'', JNum 7)]])))"
        world0 countries ?r', OF request_answer]
    by simp
  from a b show ?thesis by blast
qed

text \<open>
  C5. Let the transport answer with a response whose status code is outside the range 200
  to 299 and whose body is a JSON object. Then \<^verbatim>\<open>execute()\<close>, of the Query executor and of
  the Single-Row executor alike, raises an \<^verbatim>\<open>APIError\<close> with no cause whose message,
  code, hint and details are the values the body binds to these keys.
\<close>

theorem execute_raises_api_error:
  assumes "request c (sent w) (call_of b w) = Inr r"
    and "\<not> (200 \<le> status_code r \<and> status_code r \<le> 299)"
    and "json_body r = Some (JObj d)"
  shows "fst (execute c b w) =
           Inl (APIError \<lparr>message = dict_get d ''message'', code = dict_get d ''code'',
                           hint = dict_get d ''hint'', details = dict_get d ''details''\<rparr> None)
       \<and> fst (single_execute c b w) =
           Inl (APIError \<lparr>message = dict_get d ''message'', code = dict_get d ''code'',
                           hint = dict_get d ''hint'', details = dict_get d ''details''\<rparr> None)"
  using assms
  by (simp add: fst_execute fst_single_execute classify_failure raise_APIError_def r_json_def
      APIError_init_def)

theorem execute_raises_api_error_witness:
  "fst (execute (spec_collab (answer 403 (Some (JObj denied_body)))) countries world0) =
     Inl (APIError
       \<lparr>message = JStr ''permission denied for table countries'', code = JStr ''42501'',
        hint = JNull, details = JNull\<rparr> None)
   \<and> fst (single_execute (spec_collab (answer 403 (Some (JObj denied_body)))) countries world0) =
     Inl (APIError
       \<lparr>message = JStr ''permission denied for table countries'', code = JStr ''42501'',
        hint = JNull, details = JNull\<rparr> None)"
proof -
  let ?r = "\<lparr>status_code = 403, json_body = Some (JObj denied_body), reported_count = None\<rparr>"
  have s: "\<not> (200 \<le> status_code ?r \<and> status_code ?r \<le> 299)" by simp
  have j: "json_body ?r = Some (JObj denied_body)" by simp
  show ?thesis
    using execute_raises_api_error [OF request_answer s j, of countries world0]
    by (simp add: denied_body_def dict_get_def)
qed

text \<open>
  C6, as the code has it. Let the transport answer with a response whose status code is in
  the range 200 to 299 and which the response parser rejects with a validation failure.
  If the body is JSON, \<^verbatim>\<open>execute()\<close>, of the Query executor and of the Single-Row
  executor alike, raises an \<^verbatim>\<open>APIError\<close> built from the parsed body, with the validation
  failure as its cause. If the body is not JSON, the handler's own \<^verbatim>\<open>r.json()\<close> fails and
  its \<^verbatim>\<open>JSONDecodeError\<close> is what is raised.
\<close>

theorem execute_parse_failure:
  assumes "request c (sent w) (call_of b w) = Inr r"
    and "200 \<le> status_code r" and "status_code r \<le> 299"
  shows "(\<forall>v j. from_http_request_response c r = Inl (ValidationError v) \<and> json_body r = Some j \<longrightarrow>
            fst (execute c b w) = Inl (APIError (APIError_init j) (Some (ValidationError v))))
       \<and> (\<forall>v j. single_from_http_request_response c r = Inl (ValidationError v) \<and>
            json_body r = Some j \<longrightarrow>
            fst (single_execute c b w) =
              Inl (APIError (APIError_init j) (Some (ValidationError v))))
       \<and> (\<forall>v. from_http_request_response c r = Inl (ValidationError v) \<and> json_body r = None \<longrightarrow>
            fst (execute c b w) = Inl JSONDecodeError)
       \<and> (\<forall>v. single_from_http_request_response c r = Inl (ValidationError v) \<and>
            json_body r = None \<longrightarrow>
            fst (single_execute c b w) = Inl JSONDecodeError)"
  using assms
  by (simp add: fst_execute fst_single_execute classify_invalid raise_APIError_def r_json_def)

theorem execute_parse_failure_witness:
  "from_http_request_response (spec_collab (answer 200 (Some (JObj [(''id'', JNum 7)]))))
     \<lparr>status_code = 200, json_body = Some (JObj [(''id'', JNum 7)]), reported_count = None\<rparr> =
     Inl (ValidationError ''data'')
   \<and> fst (execute (spec_collab (answer 200 (Some (JObj [(''id'', JNum 7)])))) countries world0) =
     Inl (APIError \<lparr>message = JNull, code = JNull, hint = JNull, details = JNull\<rparr>
            (Some (ValidationError ''data'')))"
proof -
  let ?C = "spec_collab (answer 200 (Some (JObj [(''id'', JNum 7)])))"
  let ?r = "\<lparr>status_code = 200, json_body = Some (JObj [(''id'', JNum 7)]), reported_count = None\<rparr>"
  have p: "from_http_request_response ?C ?r = Inl (ValidationError ''data'')"
    by (simp add: spec_collab_def APIResponse_from_http_request_response_def dict_get_def)
  have s: "200 \<le> status_code ?r" "status_code ?r \<le> 299" by simp_all
  have i: "APIError_init (JObj [(''id'', JNum 7)]) =
      \<lparr>message = JNull, code = JNull, hint = JNull, details = JNull\<rparr>"
    by (simp add: APIError_init_def dict_get_def)
  from execute_parse_failure [OF request_answer s, of countries world0] p
  have "fst (execute ?C countries world0) =
      Inl (APIError (APIError_init (JObj [(''id'', JNum 7)])) (Some (ValidationError ''data'')))"
    by simp
  with p i show ?thesis by simp
qed

text \<open>
  C6 as stated fails: the server answers an insert that asked for no representation with
  status 201 and an empty body. The body cannot be parsed into an API Response; what
  \<^verbatim>\<open>execute()\<close> raises is the \<^verbatim>\<open>JSONDecodeError\<close> of \<^verbatim>\<open>r.json()\<close>, not an \<^verbatim>\<open>APIError\<close>.
\<close>

theorem execute_parse_failure_counterexample:
  "APIResponse_from_http_request_response
     \<lparr>status_code = 201, json_body = None, reported_count = None\<rparr> =
     Inl (ValidationError ''data'')
   \<and> fst (execute (spec_collab (answer 201 None)) new_country world2) = Inl JSONDecodeError
   \<and> fst (single_execute (spec_collab (answer 201 None)) countries world0) = Inl JSONDecodeError"
  by (simp add: execute_answer single_execute_answer classify_def raise_APIError_def r_json_def
      APIResponse_from_http_request_response_def
      SingleAPIResponse_from_http_request_response_def)

section \<open>Claims about the builders\<close>

text \<open>
  C7. \<^verbatim>\<open>single()\<close> and \<^verbatim>\<open>maybe_single()\<close> write the \<^verbatim>\<open>Accept\<close> entry of the builder's own
  header map, in the store, to "application/vnd.pgrst.object+json". The executor returned
  holds the address of that same header map and the builder's method, path, query
  parameters, JSON body and session; its class is the Single-Row executor for \<^verbatim>\<open>single()\<close>
  and the Maybe-Single executor for \<^verbatim>\<open>maybe_single()\<close>. Every builder that holds the
  address sends the new \<^verbatim>\<open>Accept\<close> value from then on. No other entry of the map, no other
  header map and nothing else of the world is changed.
\<close>

theorem single_sets_accept:
  "fst (single b w) = b\<lparr>cls := AsyncSingleRequestBuilder\<rparr>
   \<and> fst (maybe_single b w) = b\<lparr>cls := AsyncMaybeSingleRequestBuilder\<rparr>
   \<and> headers (fst (single b w)) = headers b
   \<and> headers (fst (maybe_single b w)) = headers b
   \<and> snd (maybe_single b w) = snd (single b w)
   \<and> heap (snd (single b w)) (headers b) ''Accept'' = Some ''application/vnd.pgrst.object+json''
   \<and> (\<forall>k. k \<noteq> ''Accept'' \<longrightarrow> heap (snd (single b w)) (headers b) k = heap w (headers b) k)
   \<and> (\<forall>a. a \<noteq> headers b \<longrightarrow> heap (snd (single b w)) a = heap w a)
   \<and> (\<forall>b'. headers b' = headers b \<longrightarrow>
        call_headers (call_of b' (snd (single b w))) ''Accept'' =
          Some ''application/vnd.pgrst.object+json'')
   \<and> sent (snd (single b w)) = sent w
   \<and> next_addr (snd (single b w)) = next_addr w"
  by (simp add: single_def maybe_single_def set_accept_def call_of_def)

theorem single_sets_accept_witness:
  "heap world0 (headers countries) = [''Accept-Profile'' \<mapsto> ''public'']
   \<and> heap (snd (single countries world0)) (headers countries) =
       [''Accept-Profile'' \<mapsto> ''public'', ''Accept'' \<mapsto> ''application/vnd.pgrst.object+json'']
   \<and> heap (snd (single countries world0)) 1 = heap world0 1
   \<and> call_headers (call_of (countries\<lparr>path := ''/cities''\<rparr>) (snd (single countries world0))) ''Accept'' =
       Some ''application/vnd.pgrst.object+json''
   \<and> fst (single countries world0) =
       \<lparr>cls = AsyncSingleRequestBuilder, session = 0, path = ''/countries'',
        http_method = ''GET'', headers = 0,
        params = [(''select'', ''*''), (''id'', ''eq.7'')], json = JObj []\<rparr>"
proof -
  have h0: "heap world0 (headers countries) = [''Accept-Profile'' \<mapsto> ''public'']"
    by (simp add: world0_def countries_def)
  have a: "(1::nat) \<noteq> headers countries" by (simp add: countries_def)
  have al: "headers (countries\<lparr>path := ''/cities''\<rparr>) = headers countries" by simp
  note t = single_sets_accept [of countries world0]
  have k: "heap (snd (single countries world0)) (headers countries) k =
      [''Accept-Profile'' \<mapsto> ''public'', ''Accept'' \<mapsto> ''application/vnd.pgrst.object+json''] k"
    for k
  proof (cases "k = ''Accept''")
    case True
    with t show ?thesis by simp
  next
    case False
    with t have "heap (snd (single countries world0)) (headers countries) k =
        heap world0 (headers countries) k" by blast
    with False h0 show ?thesis by simp
  qed
  have m: "heap (snd (single countries world0)) (headers countries) =
      [''Accept-Profile'' \<mapsto> ''public'', ''Accept'' \<mapsto> ''application/vnd.pgrst.object+json'']"
    using k by (rule ext)
  have o: "heap (snd (single countries world0)) 1 = heap world0 1"
    using t a by blast
  have c: "call_headers (call_of (countries\<lparr>path := ''/cities''\<rparr>)
      (snd (single countries world0))) ''Accept'' = Some ''application/vnd.pgrst.object+json''"
    using t al by blast
  have f: "fst (single countries world0) =
       \<lparr>cls = AsyncSingleRequestBuilder, session = 0, path = ''/countries'',
        http_method = ''GET'', headers = 0,
        params = [(''select'', ''*''), (''id'', ''eq.7'')], json = JObj []\<rparr>"
    using t by (simp add: countries_def)
  from h0 m o c f show ?thesis by blast
qed

text \<open>
  C8. Each of the five operations of the Request Builder hands its arguments to the
  \<^verbatim>\<open>pre_*\<close> function of the same name and wraps the method, parameters, headers and JSON
  body it returns, with the builder's session and path, in an object whose header map is
  new: \<^verbatim>\<open>select\<close> in a Select builder, \<^verbatim>\<open>insert\<close> and \<^verbatim>\<open>upsert\<close> in a plain Query executor,
  which has no filter mixin, \<^verbatim>\<open>update\<close> and \<^verbatim>\<open>delete\<close> in a Filter builder. A call of
  \<^verbatim>\<open>insert\<close>, \<^verbatim>\<open>upsert\<close>, \<^verbatim>\<open>update\<close> or \<^verbatim>\<open>delete\<close> without \<^verbatim>\<open>returning\<close> is the call with
  \<^verbatim>\<open>returning=representation\<close>.
\<close>

theorem request_builder_delegates:
  "(case pre_select p columns cnt of (m, ps, hs, j) \<Rightarrow>
      fst (select p rb columns cnt w) =
        \<lparr>cls = AsyncSelectRequestBuilder, session = rb_session rb, path = rb_path rb,
         http_method = m, headers = next_addr w, params = ps, json = j\<rparr>
      \<and> heap (snd (select p rb columns cnt w)) (next_addr w) = hs)
   \<and> (case pre_insert p js cnt ret ups of (m, ps, hs, j) \<Rightarrow>
      fst (insert_rows p rb js cnt (Some ret) (Some ups) w) =
        \<lparr>cls = AsyncQueryRequestBuilder, session = rb_session rb, path = rb_path rb,
         http_method = m, headers = next_addr w, params = ps, json = j\<rparr>
      \<and> heap (snd (insert_rows p rb js cnt (Some ret) (Some ups) w)) (next_addr w) = hs)
   \<and> (case pre_upsert p js cnt ret ign of (m, ps, hs, j) \<Rightarrow>
      fst (upsert p rb js cnt (Some ret) (Some ign) w) =
        \<lparr>cls = AsyncQueryRequestBuilder, session = rb_session rb, path = rb_path rb,
         http_method = m, headers = next_addr w, params = ps, json = j\<rparr>
      \<and> heap (snd (upsert p rb js cnt (Some ret) (Some ign) w)) (next_addr w) = hs)
   \<and> (case pre_update p js cnt ret of (m, ps, hs, j) \<Rightarrow>
      fst (update p rb js cnt (Some ret) w) =
        \<lparr>cls = AsyncFilterRequestBuilder, session = rb_session rb, path = rb_path rb,
         http_method = m, headers = next_addr w, params = ps, json = j\<rparr>
      \<and> heap (snd (update p rb js cnt (Some ret) w)) (next_addr w) = hs)
   \<and> (case pre_delete p cnt ret of (m, ps, hs, j) \<Rightarrow>
      fst (delete p rb cnt (Some ret) w) =
        \<lparr>cls = AsyncFilterRequestBuilder, session = rb_session rb, path = rb_path rb,
         http_method = m, headers = next_addr w, params = ps, json = j\<rparr>
      \<and> heap (snd (delete p rb cnt (Some ret) w)) (next_addr w) = hs)
   \<and> insert_rows p rb js cnt None u w = insert_rows p rb js cnt (Some representation) u w
   \<and> upsert p rb js cnt None u w = upsert p rb js cnt (Some representation) u w
   \<and> update p rb js cnt None w = update p rb js cnt (Some representation) w
   \<and> delete p rb cnt None w = delete p rb cnt (Some representation) w
   \<and> mixin_of AsyncSelectRequestBuilder = Some BaseSelectRequestBuilder
   \<and> mixin_of AsyncQueryRequestBuilder = None
   \<and> mixin_of AsyncFilterRequestBuilder = Some BaseFilterRequestBuilder"
  by (simp add: select_def insert_rows_def upsert_def update_def delete_def keyword_def
      construct_def split: prod.split)

theorem request_builder_delegates_witness:
  "fst (insert_rows sample_pre \<lparr>rb_session = 0, rb_path = ''/countries''\<rparr>
          (JObj [(''name'', JStr ''Chile'')]) None None (Some True) world0) =
     \<lparr>cls = AsyncQueryRequestBuilder, session = 0, path = ''/countries'',
      http_method = ''POST'', headers = 1, params = [], json = JObj [(''name'', JStr ''Chile'')]\<rparr>
   \<and> heap (snd (insert_rows sample_pre \<lparr>rb_session = 0, rb_path = ''/countries''\<rparr>
          (JObj [(''name'', JStr ''Chile'')]) None None (Some True) world0)) 1 =
     [''Prefer'' \<mapsto> ''return=representation,resolution=merge-duplicates'']"
proof -
  let ?rb = "\<lparr>rb_session = 0, rb_path = ''/countries''\<rparr>"
  let ?js = "JObj [(''name'', JStr ''Chile'')]"
  let ?hs = "[''Prefer'' \<mapsto> ''return=representation,resolution=merge-duplicates'']"
  have d: "pre_insert sample_pre ?js None representation True = (''POST'', [], ?hs, ?js)"
    by (simp add: sample_pre_def)
  have n: "next_addr world0 = 1" by (simp add: world0_def)
  note t = request_builder_delegates [where p = sample_pre and rb = ?rb and cnt = None
      and w = world0 and js = ?js and ret = representation and ups = True and u = "Some True"
      and columns = "[]" and ign = False]
  note i = t [THEN conjunct2, THEN conjunct2, THEN conjunct2, THEN conjunct2, THEN conjunct2,
      THEN conjunct1]
  note f = t [THEN conjunct2, THEN conjunct1]
  from f show ?thesis
    unfolding i d by (simp add: n)
qed

end
